theory Spec2Isabelle
  imports Complex_Main
begin

section \<open>Python values and exceptions\<close>

text \<open>
  The module \<^verbatim>\<open>homework.py\<close> computes with Python numbers. A payload entry may be
  an \<^verbatim>\<open>int\<close> or a \<^verbatim>\<open>float\<close>; every arithmetic operation of the module
  (\<^verbatim>\<open>*\<close>, \<^verbatim>\<open>+\<close>, \<^verbatim>\<open>/\<close>, \<^verbatim>\<open>** 2\<close>) treats the two alike, so both are embedded in
  \<^typ>\<open>real\<close>. The embedding is exact arithmetic: rounding, overflow to
  \<^verbatim>\<open>inf\<close>, \<^verbatim>\<open>OverflowError\<close> and underflow of IEEE-754 doubles are outside it.
  What is kept is every way the module itself can raise: a true division by zero, a
  failed dictionary lookup, a constructor call of the wrong arity, and the explicit
  \<^verbatim>\<open>raise NotImplementedError\<close> of the base class.
\<close>

datatype py_error = KeyError | TypeError | ZeroDivisionError | NotImplementedError

text \<open>
  A computation either raises (\<open>Inl\<close>) or returns (\<open>Inr\<close>); \<open>bind_err\<close> runs the
  second computation only if the first one returned, as Python's evaluation order does.
\<close>

definition bind_err :: "py_error + 'a \<Rightarrow> ('a \<Rightarrow> py_error + 'b) \<Rightarrow> py_error + 'b" where
  "bind_err r f = (case r of Inl e \<Rightarrow> Inl e | Inr v \<Rightarrow> f v)"

text \<open>Python's \<^verbatim>\<open>a / b\<close> on numbers: \<^verbatim>\<open>ZeroDivisionError\<close> when \<^verbatim>\<open>b\<close> is zero.\<close>

definition truediv :: "real \<Rightarrow> real \<Rightarrow> py_error + real" where
  "truediv a b = (if b = 0 then Inl ZeroDivisionError else Inr (a / b))"

text \<open>
  A Python \<^verbatim>\<open>str\<close> is a sequence of Unicode code points. The literals of the module
  contain Cyrillic letters, so a string is a list of code points; \<open>str\<close> embeds an
  ASCII literal.
\<close>

type_synonym pystr = "nat list"

definition str :: "string \<Rightarrow> pystr" where
  "str s = map of_char s"

section \<open>The training classes\<close>

text \<open>
  \<^verbatim>\<open>Training\<close> and its three subclasses. Each constructor of the datatype is one
  class with the attributes its \<^verbatim>\<open>__init__\<close> stores; the base class can be
  instantiated too, so it is a constructor of its own.
\<close>

datatype training =
    Training (action: real) (duration_h: real) (weight_kg: real)
  | Running (action: real) (duration_h: real) (weight_kg: real)
  | SportsWalking (action: real) (duration_h: real) (weight_kg: real) (height_sm: real)
  | Swimming (action: real) (duration_h: real) (weight_kg: real)
      (length_pool_m: real) (count_pool: real)

text \<open>\<^verbatim>\<open>self.__class__.__name__\<close>\<close>

fun class_name :: "training \<Rightarrow> pystr" where
  "class_name (Training _ _ _) = str ''Training''"
| "class_name (Running _ _ _) = str ''Running''"
| "class_name (SportsWalking _ _ _ _) = str ''SportsWalking''"
| "class_name (Swimming _ _ _ _ _) = str ''Swimming''"

text \<open>
  Class attributes. \<^verbatim>\<open>H_IN_M\<close> and \<^verbatim>\<open>M_IN_KM\<close> are declared once in
  \<^verbatim>\<open>Training\<close>; \<^verbatim>\<open>LEN_STEP\<close> is looked up through the class of \<^verbatim>\<open>self\<close>, and
  \<^verbatim>\<open>Swimming\<close> overrides it.
\<close>

definition H_IN_M :: real where
  "H_IN_M = 60.0"

definition M_IN_KM :: real where
  "M_IN_KM = 1000.0"

fun LEN_STEP :: "training \<Rightarrow> real" where
  "LEN_STEP (Swimming _ _ _ _ _) = 1.38"
| "LEN_STEP _ = 0.65"

definition CALORIES_MEAN_SPEED_MULTIPLIER :: real where
  "CALORIES_MEAN_SPEED_MULTIPLIER = 18.0"

definition CALORIES_MEAN_SPEED_SHIFT :: real where
  "CALORIES_MEAN_SPEED_SHIFT = 1.79"

definition COEF_WEIGHT :: real where
  "COEF_WEIGHT = 0.035"

definition MEAN_SPEED_IN_2_AND_HEIGHT :: real where
  "MEAN_SPEED_IN_2_AND_HEIGHT = 0.029"

definition KM_PER_H_IN_M_IN_S :: real where
  "KM_PER_H_IN_M_IN_S = 0.278"

definition SM_IN_M :: real where
  "SM_IN_M = 100.0"

definition MEAN_SPEED_MOVE :: real where
  "MEAN_SPEED_MOVE = 1.1"

definition SPEED_MULTIPLIER :: real where
  "SPEED_MULTIPLIER = 2.0"

text \<open>\<^verbatim>\<open>Training.get_distance\<close>, inherited by every subclass.\<close>

definition get_distance :: "training \<Rightarrow> py_error + real" where
  "get_distance t = truediv (action t * LEN_STEP t) M_IN_KM"

text \<open>
  \<^verbatim>\<open>get_mean_speed\<close>: \<^verbatim>\<open>Swimming\<close> overrides it with the pool formula, the other
  classes use \<^verbatim>\<open>Training.get_mean_speed\<close>.
\<close>

fun get_mean_speed :: "training \<Rightarrow> py_error + real" where
  "get_mean_speed (Swimming a d w l c) =
     bind_err (truediv (l * c) M_IN_KM) (\<lambda>q. truediv q d)"
| "get_mean_speed t =
     bind_err (get_distance t) (\<lambda>dist. truediv dist (duration_h t))"

text \<open>
  \<^verbatim>\<open>get_spent_calories\<close>: the base class raises, each subclass has its own formula.
  The operations are in the order Python evaluates them.
\<close>

fun get_spent_calories :: "training \<Rightarrow> py_error + real" where
  "get_spent_calories (Training a d w) = Inl NotImplementedError"
| "get_spent_calories (Running a d w) =
     (let minutes = d * H_IN_M in
      bind_err (get_mean_speed (Running a d w)) (\<lambda>v.
      bind_err (truediv ((CALORIES_MEAN_SPEED_MULTIPLIER * v + CALORIES_MEAN_SPEED_SHIFT) * w)
                  M_IN_KM) (\<lambda>q.
      Inr (q * minutes))))"
| "get_spent_calories (SportsWalking a d w h) =
     (let minutes = d * H_IN_M in
      bind_err (truediv h SM_IN_M) (\<lambda>height_in_metres.
      bind_err (get_mean_speed (SportsWalking a d w h)) (\<lambda>v.
      bind_err (truediv ((v * KM_PER_H_IN_M_IN_S) ^ 2) height_in_metres) (\<lambda>q.
      Inr ((COEF_WEIGHT * w + q * MEAN_SPEED_IN_2_AND_HEIGHT * w) * minutes)))))"
| "get_spent_calories (Swimming a d w l c) =
     bind_err (get_mean_speed (Swimming a d w l c)) (\<lambda>v.
     Inr ((v + MEAN_SPEED_MOVE) * SPEED_MULTIPLIER * w * d))"

section \<open>The information message\<close>

text \<open>
  \<^verbatim>\<open>InfoMessage\<close> is a dataclass of five values and the template \<^verbatim>\<open>message\<close>, a
  field with a default. The default template has two kinds of replacement fields:
  \<^verbatim>\<open>{training_type}\<close>, which inserts the string as it is, and \<^verbatim>\<open>{name:.3f}\<close> for
  the four numbers. A template is the list of its literal pieces and replacement
  fields, in order.
\<close>

datatype num_field = F_duration | F_distance | F_speed | F_calories

datatype piece = Lit pystr | Field_training_type | Field_3f num_field

record InfoMessage =
  training_type :: pystr
  duration :: real
  distance :: real
  speed :: real
  calories :: real
  message :: "piece list"

text \<open>
  The default of \<^verbatim>\<open>message\<close>. The literal pieces are written as code points; in
  the source they are the Russian labels for the workout type, the duration (in hours),
  the distance (in km), the mean speed (in km/h) and the calories spent.
\<close>

definition label_training_type :: pystr where
  "label_training_type =
     [0x422, 0x438, 0x43F, 0x20, 0x442, 0x440, 0x435, 0x43D, 0x438, 0x440, 0x43E, 0x432,
      0x43A, 0x438, 0x3A, 0x20]"

definition label_duration :: pystr where
  "label_duration =
     [0x3B, 0x20, 0x414, 0x43B, 0x438, 0x442, 0x435, 0x43B, 0x44C, 0x43D, 0x43E, 0x441,
      0x442, 0x44C, 0x3A, 0x20]"

definition label_distance :: pystr where
  "label_distance =
     [0x20, 0x447, 0x2E, 0x3B, 0x20, 0x414, 0x438, 0x441, 0x442, 0x430, 0x43D, 0x446,
      0x438, 0x44F, 0x3A, 0x20]"

definition label_speed :: pystr where
  "label_speed =
     [0x20, 0x43A, 0x43C, 0x3B, 0x20, 0x421, 0x440, 0x2E, 0x20, 0x441, 0x43A, 0x43E,
      0x440, 0x43E, 0x441, 0x442, 0x44C, 0x3A, 0x20]"

definition label_calories :: pystr where
  "label_calories =
     [0x20, 0x43A, 0x43C, 0x2F, 0x447, 0x3B, 0x20, 0x41F, 0x43E, 0x442, 0x440, 0x430,
      0x447, 0x435, 0x43D, 0x43E, 0x20, 0x43A, 0x43A, 0x430, 0x43B, 0x3A, 0x20]"

definition label_end :: pystr where
  "label_end = [0x2E]"

definition InfoMessage_message :: "piece list" where
  "InfoMessage_message =
     [Lit label_training_type, Field_training_type,
      Lit label_duration, Field_3f F_duration,
      Lit label_distance, Field_3f F_distance,
      Lit label_speed, Field_3f F_speed,
      Lit label_calories, Field_3f F_calories,
      Lit label_end]"










text \<open>
  \<^verbatim>\<open>Training.show_training_info\<close>: the arguments of the \<^verbatim>\<open>InfoMessage\<close> call are
  evaluated left to right, and the template keeps its default.
\<close>

definition show_training_info :: "training \<Rightarrow> py_error + InfoMessage" where
  "show_training_info t =
     bind_err (get_distance t) (\<lambda>dist.
     bind_err (get_mean_speed t) (\<lambda>v.
     bind_err (get_spent_calories t) (\<lambda>c.
     Inr \<lparr>training_type = class_name t, duration = duration_h t, distance = dist,
          speed = v, calories = c, message = InfoMessage_message\<rparr>)))"

section \<open>Reading a package\<close>

text \<open>
  A call \<^verbatim>\<open>cls(*data)\<close> binds the entries of \<^verbatim>\<open>data\<close> to the parameters of
  \<^verbatim>\<open>__init__\<close>; Python raises \<^verbatim>\<open>TypeError\<close> when their number is not the number
  of parameters. The constructors store their arguments and do nothing else.
\<close>

definition new_Swimming :: "real list \<Rightarrow> py_error + training" where
  "new_Swimming data =
     (case data of [a, d, w, l, c] \<Rightarrow> Inr (Swimming a d w l c) | _ \<Rightarrow> Inl TypeError)"

definition new_Running :: "real list \<Rightarrow> py_error + training" where
  "new_Running data =
     (case data of [a, d, w] \<Rightarrow> Inr (Running a d w) | _ \<Rightarrow> Inl TypeError)"

definition new_SportsWalking :: "real list \<Rightarrow> py_error + training" where
  "new_SportsWalking data =
     (case data of [a, d, w, h] \<Rightarrow> Inr (SportsWalking a d w h) | _ \<Rightarrow> Inl TypeError)"

text \<open>The dictionary \<^verbatim>\<open>trainings\<close> of \<^verbatim>\<open>read_package\<close>.\<close>

definition trainings :: "pystr \<rightharpoonup> (real list \<Rightarrow> py_error + training)" where
  "trainings =
     [str ''SWM'' \<mapsto> new_Swimming, str ''RUN'' \<mapsto> new_Running,
      str ''WLK'' \<mapsto> new_SportsWalking]"

text \<open>The expression \<^verbatim>\<open>trainings[workout_type](*data)\<close>.\<close>

definition lookup_and_call :: "pystr \<Rightarrow> real list \<Rightarrow> py_error + training" where
  "lookup_and_call workout_type data =
     (case trainings workout_type of
        None \<Rightarrow> Inl KeyError
      | Some cls \<Rightarrow> cls data)"

text \<open>
  The two lines \<^verbatim>\<open>read_package\<close> prints: the first says (in Russian) that a
  \<^verbatim>\<open>KeyError\<close> occurred because the workout type is wrong, the second that a
  \<^verbatim>\<open>TypeError\<close> occurred because of the data passed.
\<close>

definition KeyError_message :: pystr where
  "KeyError_message =
     [0x41E, 0x448, 0x438, 0x431, 0x43A, 0x430, 0x20] @ str ''KeyError: '' @
     [0x43D, 0x435, 0x20, 0x432, 0x435, 0x440, 0x43D, 0x43E, 0x20, 0x437, 0x430, 0x434,
      0x430, 0x43D, 0x20, 0x442, 0x438, 0x43F, 0x20, 0x442, 0x440, 0x435, 0x43D, 0x438,
      0x440, 0x43E, 0x432, 0x43A, 0x438]"

definition TypeError_message :: pystr where
  "TypeError_message =
     [0x41E, 0x448, 0x438, 0x431, 0x43A, 0x430, 0x20] @ str ''TypeError: '' @
     [0x43E, 0x448, 0x438, 0x431, 0x43A, 0x430, 0x20, 0x43F, 0x435, 0x440, 0x435, 0x434,
      0x430, 0x43D, 0x43D, 0x44B, 0x445, 0x20, 0x434, 0x430, 0x43D, 0x43D, 0x44B, 0x445]"

text \<open>
  \<^verbatim>\<open>read_package\<close>. The result is the list of lines printed and the outcome: an
  exception that escapes, or the value returned, where \<open>None\<close> is Python's
  \<^verbatim>\<open>None\<close> (the function ends without a \<^verbatim>\<open>return\<close> after a handler has printed).
  The \<^verbatim>\<open>else\<close> branch evaluates the constructor call a second time.
\<close>

definition read_package ::
    "pystr \<Rightarrow> real list \<Rightarrow> pystr list \<times> (py_error + training option)" where
  "read_package workout_type data =
     (case lookup_and_call workout_type data of
        Inl KeyError \<Rightarrow> ([KeyError_message], Inr None)
      | Inl TypeError \<Rightarrow> ([TypeError_message], Inr None)
      | Inl e \<Rightarrow> ([], Inl e)
      | Inr _ \<Rightarrow> ([], map_sum id Some (lookup_and_call workout_type data)))"

section \<open>Distance, mean speed and calories\<close>

text \<open>The values of the class attributes, and the definitions of the arithmetic layer.\<close>

lemmas class_consts = H_IN_M_def M_IN_KM_def CALORIES_MEAN_SPEED_MULTIPLIER_def
  CALORIES_MEAN_SPEED_SHIFT_def COEF_WEIGHT_def MEAN_SPEED_IN_2_AND_HEIGHT_def
  KM_PER_H_IN_M_IN_S_def SM_IN_M_def MEAN_SPEED_MOVE_def SPEED_MULTIPLIER_def

lemmas arith_defs = get_distance_def truediv_def bind_err_def

text \<open>
  C1. For every \<^verbatim>\<open>Running\<close> and every \<^verbatim>\<open>SportsWalking\<close> object
  \<^verbatim>\<open>get_distance()\<close> returns \<^verbatim>\<open>action * 0.65 / 1000.0\<close>, and for every
  \<^verbatim>\<open>Swimming\<close> object it returns \<^verbatim>\<open>action * 1.38 / 1000.0\<close>: the action count times
  the step length of the class, divided by the metres in a kilometre.
\<close>

theorem get_distance_formula:
  "get_distance (Running a d w) = Inr (a * 0.65 / 1000.0) \<and>
   get_distance (SportsWalking a d w h) = Inr (a * 0.65 / 1000.0) \<and>
   get_distance (Swimming a d w l c) = Inr (a * 1.38 / 1000.0)"
  by (simp add: arith_defs class_consts)

theorem get_distance_formula_witness:
  "get_distance (Running 15000 1 75) = Inr 9.75 \<and>
   get_distance (SportsWalking 9000 1 75 180) = Inr 5.85 \<and>
   get_distance (Swimming 720 1 80 25 40) = Inr 0.9936"
  using get_distance_formula [of 15000 1 75]
    get_distance_formula [of 9000 1 75 180]
    get_distance_formula [of 720 1 80 _ 25 40]
  by simp

text \<open>
  C2. For every \<^verbatim>\<open>Running\<close> or \<^verbatim>\<open>SportsWalking\<close> object with a nonzero
  duration, \<^verbatim>\<open>get_mean_speed()\<close> returns what \<^verbatim>\<open>get_distance()\<close> returns divided by
  the duration. For every \<^verbatim>\<open>Swimming\<close> object with a nonzero duration it returns
  \<^verbatim>\<open>(length_pool * count_pool / 1000.0) / duration\<close>, a value in which neither
  \<^verbatim>\<open>get_distance()\<close> nor the action count occurs.
\<close>

theorem get_mean_speed_formula:
  assumes "d \<noteq> 0"
  shows "(\<exists>dist. get_distance (Running a d w) = Inr dist \<and>
            get_mean_speed (Running a d w) = Inr (dist / d)) \<and>
         (\<exists>dist. get_distance (SportsWalking a d w h) = Inr dist \<and>
            get_mean_speed (SportsWalking a d w h) = Inr (dist / d)) \<and>
         get_mean_speed (Swimming a d w l c) = Inr ((l * c / 1000.0) / d)"
proof (intro conjI)
  show "\<exists>dist. get_distance (Running a d w) = Inr dist \<and>
          get_mean_speed (Running a d w) = Inr (dist / d)"
    using assms
    by (intro exI [of _ "a * 0.65 / 1000.0"]) (simp add: arith_defs class_consts)
  show "\<exists>dist. get_distance (SportsWalking a d w h) = Inr dist \<and>
          get_mean_speed (SportsWalking a d w h) = Inr (dist / d)"
    using assms
    by (intro exI [of _ "a * 0.65 / 1000.0"]) (simp add: arith_defs class_consts)
  show "get_mean_speed (Swimming a d w l c) = Inr ((l * c / 1000.0) / d)"
    using assms by (simp add: arith_defs class_consts)
qed

theorem get_mean_speed_formula_witness:
  "(2::real) \<noteq> 0 \<and>
   get_distance (Running 15000 2 75) = Inr 9.75 \<and>
   get_mean_speed (Running 15000 2 75) = Inr (9.75 / 2) \<and>
   get_distance (SportsWalking 15000 2 75 180) = Inr 9.75 \<and>
   get_mean_speed (SportsWalking 15000 2 75 180) = Inr (9.75 / 2) \<and>
   get_mean_speed (Swimming 15000 2 75 25 40) = Inr 0.5"
proof -
  have nz: "(2::real) \<noteq> 0" by simp
  show ?thesis
    using get_mean_speed_formula [OF nz, of 15000 75 180 25 40]
    by (simp add: arith_defs class_consts)
qed

text \<open>
  C3. For every \<^verbatim>\<open>Running\<close> object with a nonzero duration,
  \<^verbatim>\<open>get_spent_calories()\<close> returns
  \<^verbatim>\<open>(18.0 * v + 1.79) * weight / 1000.0 * (duration * 60.0)\<close>, where \<^verbatim>\<open>v\<close> is what
  \<^verbatim>\<open>get_mean_speed()\<close> returns.
\<close>

theorem running_calories_formula:
  assumes "d \<noteq> 0"
  shows "\<exists>v. get_mean_speed (Running a d w) = Inr v \<and>
           get_spent_calories (Running a d w) =
             Inr ((18.0 * v + 1.79) * w / 1000.0 * (d * 60.0))"
  using assms
  by (intro exI [of _ "a * 0.65 / 1000.0 / d"]) (simp add: arith_defs class_consts)

theorem running_calories_formula_witness:
  "(1::real) \<noteq> 0 \<and>
   get_mean_speed (Running 15000 1 75) = Inr 9.75 \<and>
   get_spent_calories (Running 15000 1 75) = Inr 797.805"
proof -
  have nz: "(1::real) \<noteq> 0" by simp
  show ?thesis
    using running_calories_formula [OF nz, of 15000 75]
    by (simp add: arith_defs class_consts)
qed



text \<open>
  C5. For every \<^verbatim>\<open>Swimming\<close> object with a nonzero duration,
  \<^verbatim>\<open>get_spent_calories()\<close> returns \<^verbatim>\<open>(v + 1.1) * 2.0 * weight * duration\<close>, where
  \<^verbatim>\<open>v\<close> is what the \<^verbatim>\<open>get_mean_speed()\<close> of \<^verbatim>\<open>Swimming\<close> returns, the pool-based
  speed \<^verbatim>\<open>length_pool * count_pool / 1000.0 / duration\<close>.
\<close>

theorem swimming_calories_formula:
  assumes "d \<noteq> 0"
  shows "\<exists>v. get_mean_speed (Swimming a d w l c) = Inr v \<and>
           v = l * c / 1000.0 / d \<and>
           get_spent_calories (Swimming a d w l c) = Inr ((v + 1.1) * 2.0 * w * d)"
  using assms by (simp add: arith_defs class_consts)

theorem swimming_calories_formula_witness:
  "(1::real) \<noteq> 0 \<and>
   get_mean_speed (Swimming 720 1 80 25 40) = Inr 1 \<and>
   get_spent_calories (Swimming 720 1 80 25 40) = Inr 336"
proof -
  have nz: "(1::real) \<noteq> 0" by simp
  show ?thesis
    using swimming_calories_formula [OF nz, of 720 80 25 40]
    by (simp add: arith_defs class_consts)
qed

text \<open>
  C9. The claim is that the distance of a \<^verbatim>\<open>Swimming\<close> object does not depend on
  its action count. \<^verbatim>\<open>Swimming\<close> inherits \<^verbatim>\<open>get_distance\<close> and only replaces
  \<^verbatim>\<open>LEN_STEP\<close>, so the distance is the action count times 1.38 m: two objects that
  differ in nothing but the action count (720 and 0 strokes) have different distances.
\<close>

theorem swimming_distance_depends_on_action:
  "get_distance (Swimming 720 1 80 25 40) = Inr 0.9936 \<and>
   get_distance (Swimming 0 1 80 25 40) = Inr 0 \<and>
   get_distance (Swimming 720 1 80 25 40) \<noteq> get_distance (Swimming 0 1 80 25 40)"
  by (simp add: arith_defs class_consts)

text \<open>
  C9, as amended. The distance of a \<^verbatim>\<open>Swimming\<close> object is
  \<^verbatim>\<open>action * 1.38 / 1000.0\<close>. What does not depend on the action count is the mean
  speed and, with it, the calories: two \<^verbatim>\<open>Swimming\<close> objects that agree on all
  attributes except the action count have the same \<^verbatim>\<open>get_mean_speed()\<close> and the same
  \<^verbatim>\<open>get_spent_calories()\<close>.
\<close>

theorem swimming_speed_independent_of_action:
  "get_distance (Swimming a d w l c) = Inr (a * 1.38 / 1000.0) \<and>
   get_mean_speed (Swimming a d w l c) = get_mean_speed (Swimming a' d w l c) \<and>
   get_spent_calories (Swimming a d w l c) = get_spent_calories (Swimming a' d w l c)"
  by (simp add: arith_defs class_consts)

theorem swimming_speed_independent_of_action_witness:
  "get_distance (Swimming 720 1 80 25 40) = Inr 0.9936 \<and>
   get_mean_speed (Swimming 720 1 80 25 40) = Inr 1 \<and>
   get_mean_speed (Swimming 0 1 80 25 40) = Inr 1 \<and>
   get_spent_calories (Swimming 720 1 80 25 40) = Inr 336 \<and>
   get_spent_calories (Swimming 0 1 80 25 40) = Inr 336"
  using swimming_speed_independent_of_action [of 720 1 80 25 40 0]
  by (simp add: arith_defs class_consts)

section \<open>No operation of a well-formed training fails\<close>


text \<open>
  The failures the module can produce: a zero duration makes the mean speed divide by
  zero, a zero height does the same in the calories of \<^verbatim>\<open>SportsWalking\<close>, and the
  base class has no calories at all.
\<close>

lemma zero_duration_raises:
  "get_mean_speed (Training a 0 w) = Inl ZeroDivisionError"
  "get_mean_speed (Running a 0 w) = Inl ZeroDivisionError"
  "get_mean_speed (SportsWalking a 0 w h) = Inl ZeroDivisionError"
  "get_mean_speed (Swimming a 0 w l c) = Inl ZeroDivisionError"
  by (simp_all add: arith_defs class_consts)

lemma zero_height_raises:
  "d \<noteq> 0 \<Longrightarrow> get_spent_calories (SportsWalking a d w 0) = Inl ZeroDivisionError"
  by (simp add: arith_defs class_consts)

lemma base_class_raises:
  "get_spent_calories (Training a d w) = Inl NotImplementedError"
  "d \<noteq> 0 \<Longrightarrow> show_training_info (Training a d w) = Inl NotImplementedError"
  by (simp_all add: show_training_info_def arith_defs class_consts)



section \<open>Reading a package: the two handled errors\<close>

lemma trainings_unknown:
  "workout_type \<notin> {str ''SWM'', str ''RUN'', str ''WLK''} \<Longrightarrow> trainings workout_type = None"
  by (simp add: trainings_def)

lemma trainings_known:
  "trainings (str ''SWM'') = Some new_Swimming"
  "trainings (str ''RUN'') = Some new_Running"
  "trainings (str ''WLK'') = Some new_SportsWalking"
  by (simp_all add: trainings_def str_def)

lemma new_Running_cases:
  "new_Running data =
     (if length data = 3 then Inr (Running (data ! 0) (data ! 1) (data ! 2)) else Inl TypeError)"
  by (auto simp: new_Running_def split: list.splits)

lemma new_SportsWalking_cases:
  "new_SportsWalking data =
     (if length data = 4
      then Inr (SportsWalking (data ! 0) (data ! 1) (data ! 2) (data ! 3))
      else Inl TypeError)"
  by (auto simp: new_SportsWalking_def split: list.splits)

lemma new_Swimming_cases:
  "new_Swimming data =
     (if length data = 5
      then Inr (Swimming (data ! 0) (data ! 1) (data ! 2) (data ! 3) (data ! 4))
      else Inl TypeError)"
  by (auto simp: new_Swimming_def split: list.splits)

text \<open>
  C6. For every workout type that is none of \<^verbatim>\<open>'SWM'\<close>, \<^verbatim>\<open>'RUN'\<close>, \<^verbatim>\<open>'WLK'\<close> and
  for every payload, \<^verbatim>\<open>read_package\<close> prints the line of the \<^verbatim>\<open>KeyError\<close> handler
  (the workout type is wrong) and returns \<^verbatim>\<open>None\<close>: no training object reaches the
  caller.
\<close>

theorem read_package_unknown_code:
  assumes "workout_type \<notin> {str ''SWM'', str ''RUN'', str ''WLK''}"
  shows "read_package workout_type data = ([KeyError_message], Inr None)"
  using assms by (simp add: read_package_def lookup_and_call_def trainings_unknown)

theorem read_package_unknown_code_witness:
  "str ''XYZ'' \<notin> {str ''SWM'', str ''RUN'', str ''WLK''} \<and>
   read_package (str ''XYZ'') [1, 2, 3] = ([KeyError_message], Inr None)"
proof -
  have unknown: "str ''XYZ'' \<notin> {str ''SWM'', str ''RUN'', str ''WLK''}"
    by (simp add: str_def)
  show ?thesis
    using unknown read_package_unknown_code [OF unknown, of "[1, 2, 3]"] by simp
qed

text \<open>
  C7. For each of the three known workout types and every payload of numbers: when the
  length of the payload is not the number of constructor arguments of the class (3 for
  \<^verbatim>\<open>'RUN'\<close>, 4 for \<^verbatim>\<open>'WLK'\<close>, 5 for \<^verbatim>\<open>'SWM'\<close>), \<^verbatim>\<open>read_package\<close> prints the line
  of the \<^verbatim>\<open>TypeError\<close> handler (the data are wrong) and returns \<^verbatim>\<open>None\<close>; when the
  length matches, it prints nothing and returns the object of that class built from
  the payload entries in order.
\<close>

theorem read_package_arity:
  "read_package (str ''RUN'') data =
     (if length data = 3
      then ([], Inr (Some (Running (data ! 0) (data ! 1) (data ! 2))))
      else ([TypeError_message], Inr None)) \<and>
   read_package (str ''WLK'') data =
     (if length data = 4
      then ([], Inr (Some (SportsWalking (data ! 0) (data ! 1) (data ! 2) (data ! 3))))
      else ([TypeError_message], Inr None)) \<and>
   read_package (str ''SWM'') data =
     (if length data = 5
      then ([], Inr (Some (Swimming (data ! 0) (data ! 1) (data ! 2) (data ! 3) (data ! 4))))
      else ([TypeError_message], Inr None))"
  by (simp add: read_package_def lookup_and_call_def trainings_known
      new_Running_cases new_SportsWalking_cases new_Swimming_cases)

theorem read_package_arity_witness:
  "read_package (str ''RUN'') [15000, 1, 75] = ([], Inr (Some (Running 15000 1 75))) \<and>
   read_package (str ''RUN'') [1, 2] = ([TypeError_message], Inr None) \<and>
   read_package (str ''WLK'') [9000, 1, 75, 180] =
     ([], Inr (Some (SportsWalking 9000 1 75 180))) \<and>
   read_package (str ''WLK'') [9000, 1, 75] = ([TypeError_message], Inr None) \<and>
   read_package (str ''SWM'') [720, 1, 80, 25, 40] =
     ([], Inr (Some (Swimming 720 1 80 25 40))) \<and>
   read_package (str ''SWM'') [720, 1, 80, 25, 40, 7] = ([TypeError_message], Inr None)"
  using read_package_arity [of "[15000, 1, 75]"] read_package_arity [of "[1, 2]"]
    read_package_arity [of "[9000, 1, 75, 180]"] read_package_arity [of "[9000, 1, 75]"]
    read_package_arity [of "[720, 1, 80, 25, 40]"]
    read_package_arity [of "[720, 1, 80, 25, 40, 7]"]
  by simp

section \<open>The formatted message\<close>








lemma show_training_info_template:
  "show_training_info t = Inr m \<Longrightarrow> message m = InfoMessage_message"
  by (auto simp: show_training_info_def bind_err_def split: sum.splits)




end
